theory Spec2Isabelle
  imports Complex_Main "HOL-Library.AList" "HOL-Library.Sublist"
begin

section \<open>Floating-point values\<close>

text \<open>
  Prices and metrics are IEEE doubles (Python floats in the JSON payload, \<open>numpy.float64\<close>
  once they sit in a DataFrame column). A value is a finite number, one of the two
  infinities, or NaN. The special values follow IEEE 754 as numpy applies it to scalars:
  a division by zero does not raise, it returns an infinity or NaN (with a warning on
  stderr). Arithmetic on finite values is exact here: rounding and overflow of finite
  results are not modelled, and \<open>-0.0\<close> is identified with \<open>0.0\<close>.
\<close>

datatype fl = Fin real | PInf | NInf | NaN

fun fl_add :: "fl \<Rightarrow> fl \<Rightarrow> fl" where
  "fl_add NaN _ = NaN"
| "fl_add _ NaN = NaN"
| "fl_add (Fin x) (Fin y) = Fin (x + y)"
| "fl_add PInf NInf = NaN"
| "fl_add NInf PInf = NaN"
| "fl_add PInf _ = PInf"
| "fl_add _ PInf = PInf"
| "fl_add NInf _ = NInf"
| "fl_add _ NInf = NInf"

fun fl_sub :: "fl \<Rightarrow> fl \<Rightarrow> fl" where
  "fl_sub NaN _ = NaN"
| "fl_sub _ NaN = NaN"
| "fl_sub (Fin x) (Fin y) = Fin (x - y)"
| "fl_sub PInf PInf = NaN"
| "fl_sub NInf NInf = NaN"
| "fl_sub PInf _ = PInf"
| "fl_sub NInf _ = NInf"
| "fl_sub _ PInf = NInf"
| "fl_sub _ NInf = PInf"

fun fl_mul :: "fl \<Rightarrow> fl \<Rightarrow> fl" where
  "fl_mul NaN _ = NaN"
| "fl_mul _ NaN = NaN"
| "fl_mul (Fin x) (Fin y) = Fin (x * y)"
| "fl_mul PInf (Fin y) = (if y = 0 then NaN else if 0 < y then PInf else NInf)"
| "fl_mul NInf (Fin y) = (if y = 0 then NaN else if 0 < y then NInf else PInf)"
| "fl_mul (Fin x) PInf = (if x = 0 then NaN else if 0 < x then PInf else NInf)"
| "fl_mul (Fin x) NInf = (if x = 0 then NaN else if 0 < x then NInf else PInf)"
| "fl_mul PInf PInf = PInf"
| "fl_mul NInf NInf = PInf"
| "fl_mul PInf NInf = NInf"
| "fl_mul NInf PInf = NInf"

fun fl_div :: "fl \<Rightarrow> fl \<Rightarrow> fl" where
  "fl_div NaN _ = NaN"
| "fl_div _ NaN = NaN"
| "fl_div (Fin x) (Fin y) =
     (if y \<noteq> 0 then Fin (x / y)
      else if x = 0 then NaN
      else if 0 < x then PInf else NInf)"
| "fl_div (Fin x) PInf = Fin 0"
| "fl_div (Fin x) NInf = Fin 0"
| "fl_div PInf (Fin y) = (if 0 \<le> y then PInf else NInf)"
| "fl_div NInf (Fin y) = (if 0 \<le> y then NInf else PInf)"
| "fl_div _ _ = NaN"

text \<open>The comparison \<open>a > b\<close>: false as soon as one side is NaN.\<close>

fun fl_gt :: "fl \<Rightarrow> fl \<Rightarrow> bool" where
  "fl_gt NaN _ = False"
| "fl_gt _ NaN = False"
| "fl_gt (Fin x) (Fin y) = (y < x)"
| "fl_gt PInf PInf = False"
| "fl_gt PInf _ = True"
| "fl_gt _ PInf = False"
| "fl_gt NInf _ = False"
| "fl_gt _ NInf = True"

text \<open>The comparison \<open>a <= b\<close>, used only to state properties.\<close>

fun fl_le :: "fl \<Rightarrow> fl \<Rightarrow> bool" where
  "fl_le NaN _ = False"
| "fl_le _ NaN = False"
| "fl_le (Fin x) (Fin y) = (x \<le> y)"
| "fl_le NInf _ = True"
| "fl_le _ PInf = True"
| "fl_le _ _ = False"

fun fl_sqrt :: "fl \<Rightarrow> fl" where
  "fl_sqrt (Fin x) = (if 0 \<le> x then Fin (sqrt x) else NaN)"
| "fl_sqrt PInf = PInf"
| "fl_sqrt NInf = NaN"
| "fl_sqrt NaN = NaN"

fun is_finite :: "fl \<Rightarrow> bool" where
  "is_finite (Fin x) = True"
| "is_finite _ = False"

definition fl_sum :: "fl list \<Rightarrow> fl" where
  "fl_sum xs = foldl fl_add (Fin 0) xs"

section \<open>Series normalization (\<open>Crypto.get_prices\<close>)\<close>

text \<open>
  A calendar date is its day number, counted from 1970-01-01. A DataFrame with the
  columns \<open>date\<close> and \<open>price_usd\<close> is the list of its rows in index order.
\<close>

type_synonym date = int
type_synonym dataframe = "(date \<times> fl) list"

text \<open>
  The only exception that escapes \<open>get_prices\<close> on a payload of samples: the one
  \<open>datetime.fromtimestamp\<close> raises for an instant whose local calendar date lies outside
  the days it converts, 0001-01-02 to 9999-12-31 (it fails on the first day of year 1 as
  well). It is not a \<open>requests.RequestException\<close>, so the handler of the loop does not
  catch it.
\<close>

datatype error = DateOutOfRange

definition MINDAY :: int where
  "MINDAY = - 719161"

definition MAXDAY :: int where
  "MAXDAY = 2932896"

text \<open>
  \<open>datetime.fromtimestamp(ts / 1000).date()\<close> for a timestamp in milliseconds. The source
  converts in the local time zone of the machine; \<open>utcoffset\<close> is that zone, giving for
  an instant (in milliseconds) the offset of local time from UTC in seconds.
\<close>

definition fromtimestamp_date :: "(int \<Rightarrow> int) \<Rightarrow> int \<Rightarrow> error + date" where
  "fromtimestamp_date utcoffset ts =
     (let d = (ts + 1000 * utcoffset ts) div 86400000
      in if d < MINDAY \<or> MAXDAY < d then Inl DateOutOfRange else Inr d)"

text \<open>The list comprehension \<open>price_data\<close>: one row per raw sample, in input order.\<close>

fun price_data :: "(int \<Rightarrow> int) \<Rightarrow> (int \<times> fl) list \<Rightarrow> error + dataframe" where
  "price_data utcoffset [] = Inr []"
| "price_data utcoffset ((ts, price) # rest) =
     (case fromtimestamp_date utcoffset ts of
        Inl e \<Rightarrow> Inl e
      | Inr d \<Rightarrow>
          (case price_data utcoffset rest of
             Inl e \<Rightarrow> Inl e
           | Inr rows \<Rightarrow> Inr ((d, price) # rows)))"

text \<open>
  \<open>df.drop_duplicates(subset=['date'], keep='last')\<close>: a row is dropped when a later row
  has the same date; the rows kept stay in their order.
\<close>

fun drop_duplicates_last :: "('d \<times> 'p) list \<Rightarrow> ('d \<times> 'p) list" where
  "drop_duplicates_last [] = []"
| "drop_duplicates_last (row # rows) =
     (if fst row \<in> fst ` set rows then drop_duplicates_last rows
      else row # drop_duplicates_last rows)"

text \<open>Lines 56 to 62 of \<open>get_prices\<close>: the DataFrame built from the \<open>prices\<close> field.\<close>

definition normalize_samples :: "(int \<Rightarrow> int) \<Rightarrow> (int \<times> fl) list \<Rightarrow> error + dataframe" where
  "normalize_samples utcoffset raw =
     (case price_data utcoffset raw of
        Inl e \<Rightarrow> Inl e
      | Inr rows \<Rightarrow> Inr (drop_duplicates_last rows))"

text \<open>
  What the request for one coin gave: a \<open>requests.RequestException\<close> (connection, HTTP
  status, undecodable body), or the decoded JSON object, of which only the \<open>prices\<close>
  field matters: absent, or a list of \<open>[timestamp_ms, price]\<close> pairs.
\<close>

datatype response = RequestException | Json "(int \<times> fl) list option"

text \<open>
  The loop of \<open>get_prices\<close> over the coin names, each paired with the response its request
  received. \<open>prices\<close> is the dictionary built so far, in insertion order; assigning to a
  key that is present replaces the value in place.
\<close>

fun get_prices_loop ::
  "(int \<Rightarrow> int) \<Rightarrow> (string \<times> response) list \<Rightarrow> (string \<times> dataframe) list
     \<Rightarrow> error + (string \<times> dataframe) list" where
  "get_prices_loop utcoffset [] prices = Inr prices"
| "get_prices_loop utcoffset ((coin_name, RequestException) # rest) prices =
     get_prices_loop utcoffset rest prices"
| "get_prices_loop utcoffset ((coin_name, Json None) # rest) prices =
     get_prices_loop utcoffset rest prices"
| "get_prices_loop utcoffset ((coin_name, Json (Some raw)) # rest) prices =
     (case normalize_samples utcoffset raw of
        Inl e \<Rightarrow> Inl e
      | Inr df \<Rightarrow> get_prices_loop utcoffset rest (AList.update coin_name df prices))"

definition get_prices ::
  "(int \<Rightarrow> int) \<Rightarrow> (string \<times> response) list \<Rightarrow> error + (string \<times> dataframe) list" where
  "get_prices utcoffset batch = get_prices_loop utcoffset batch []"

section \<open>Trend analysis (\<open>TrendAnalyzer.analyze_trends\<close>)\<close>

record trend =
  change_percentage :: fl
  volatility :: fl
  average_price :: fl

text \<open>\<open>numpy.ndarray.mean\<close>: the sum over the count; a NaN element makes the mean NaN.\<close>

definition mean :: "fl list \<Rightarrow> fl" where
  "mean xs = fl_div (fl_sum xs) (Fin (real (length xs)))"

text \<open>
  \<open>pandas.Series.std()\<close> with its defaults \<open>ddof=1\<close> and \<open>skipna=True\<close>: NaN entries are
  left out, the rest is counted; with at most one entry left the result is NaN, otherwise
  it is the square root of the sum of squared deviations from the mean of the entries
  left, over their count minus one.
\<close>

definition std :: "fl list \<Rightarrow> fl" where
  "std xs =
     (let values = filter (\<lambda>v. v \<noteq> NaN) xs;
          count = length values
      in if count \<le> 1 then NaN
         else
           let avg = fl_div (fl_sum values) (Fin (real count));
               sqr = map (\<lambda>v. fl_mul (fl_sub avg v) (fl_sub avg v)) values
           in fl_sqrt (fl_div (fl_sum sqr) (Fin (real (count - 1)))))"

text \<open>
  The list comprehension \<open>daily_changes\<close>: the change of each price relative to the one
  before it, for the positions \<open>1\<close> to \<open>len - 1\<close>.
\<close>

definition daily_changes :: "fl list \<Rightarrow> fl list" where
  "daily_changes price_changes =
     map (\<lambda>i. fl_div (fl_sub (price_changes ! i) (price_changes ! (i - 1)))
                       (price_changes ! (i - 1)))
         [1 ..< length price_changes]"

text \<open>
  The body of the loop for one coin whose DataFrame is not empty. \<open>iloc[0]\<close> and
  \<open>iloc[-1]\<close> are the rows at positions \<open>0\<close> and \<open>len - 1\<close>.
\<close>

definition analyze_df :: "dataframe \<Rightarrow> trend" where
  "analyze_df df =
     (let price_changes = map snd df;
          first_price = price_changes ! 0;
          last_price = price_changes ! (length price_changes - 1)
      in \<lparr> change_percentage =
             fl_mul (fl_div (fl_sub last_price first_price) first_price) (Fin 100),
           volatility =
             (if length (daily_changes price_changes) > 1
              then std (daily_changes price_changes) else Fin 0),
           average_price = mean price_changes \<rparr>)"

text \<open>
  The loop over \<open>price_data.items()\<close>: an empty DataFrame is skipped, every other coin
  gets its entry in \<open>trends\<close>. No statement of the loop catches an exception, and with
  numpy scalars none is raised.
\<close>

fun analyze_trends_loop ::
  "(string \<times> dataframe) list \<Rightarrow> (string \<times> trend) list \<Rightarrow> (string \<times> trend) list" where
  "analyze_trends_loop [] trends = trends"
| "analyze_trends_loop ((coin_name, df) # rest) trends =
     (if df = [] then analyze_trends_loop rest trends
      else analyze_trends_loop rest (AList.update coin_name (analyze_df df) trends))"

definition analyze_trends :: "(string \<times> dataframe) list \<Rightarrow> (string \<times> trend) list" where
  "analyze_trends prices_data = analyze_trends_loop prices_data []"

section \<open>Recommendations (\<open>Crypto.suggest_investments\<close>)\<close>

record recommendation = trend +
  coin :: string

text \<open>The loop over \<open>trends.items()\<close> that appends to \<open>recommendations\<close>.\<close>

fun recommendations :: "(string \<times> trend) list \<Rightarrow> recommendation list" where
  "recommendations [] = []"
| "recommendations ((coin_name, t) # rest) =
     (if fl_gt (change_percentage t) (Fin 0)
      then \<lparr> change_percentage = change_percentage t,
             volatility = volatility t,
             average_price = average_price t,
             coin = coin_name \<rparr> # recommendations rest
      else recommendations rest)"

text \<open>The tier printed on the \<open>Suggestion:\<close> line of the detailed view.\<close>

definition suggestion :: "recommendation \<Rightarrow> string" where
  "suggestion r =
     (if fl_gt (change_percentage r) (Fin 5) then ''High potential for growth!''
      else ''Moderate growth expected.'')"

text \<open>
  \<open>suggest_investments\<close> without its printing and prompting: the prices are fetched, the
  trends analysed, the recommendations collected, and both are returned.
\<close>

definition suggest_investments ::
  "(int \<Rightarrow> int) \<Rightarrow> (string \<times> response) list
     \<Rightarrow> error + ((string \<times> trend) list \<times> recommendation list)" where
  "suggest_investments utcoffset batch =
     (case get_prices utcoffset batch of
        Inl e \<Rightarrow> Inl e
      | Inr prices_data \<Rightarrow>
          (let trends = analyze_trends prices_data
           in Inr (trends, recommendations trends)))"

section \<open>Notions of the specification\<close>

text \<open>
  The sample standard deviation as the specification words it: Bessel-corrected, the sum
  of the squared deviations from the mean of all \<open>n\<close> values over \<open>n - 1\<close>, in the same
  arithmetic as the code. A NaN among the values makes it NaN.
\<close>

definition sample_std :: "fl list \<Rightarrow> fl" where
  "sample_std xs =
     (let m = fl_div (fl_sum xs) (Fin (real (length xs)))
      in fl_sqrt (fl_div (fl_sum (map (\<lambda>x. fl_mul (fl_sub x m) (fl_sub x m)) xs))
                         (Fin (real (length xs) - 1))))"

text \<open>
  The change percentage as the specification words it, from the entries of the series
  taken in date order: the rows are sorted by date (rows of one date keep their order),
  and the first and the last of them give the two prices.
\<close>

definition by_date :: "dataframe \<Rightarrow> dataframe" where
  "by_date df = sort_key fst df"

definition change_by_date :: "dataframe \<Rightarrow> fl" where
  "change_by_date df =
     (let first_price = snd (hd (by_date df));
          last_price = snd (last (by_date df))
      in fl_mul (fl_div (fl_sub last_price first_price) first_price) (Fin 100))"

text \<open>
  No data for a coin: the request failed, the payload has no \<open>prices\<close> field, or the
  field is an empty list.
\<close>

definition no_data :: "response \<Rightarrow> bool" where
  "no_data r = (r = RequestException \<or> r = Json None \<or> r = Json (Some []))"

section \<open>Properties of the normalization\<close>

lemma drop_duplicates_last_keys: "fst ` set (drop_duplicates_last rows) = fst ` set rows"
  by (induction rows) auto

lemma drop_duplicates_last_distinct: "distinct (map fst (drop_duplicates_last rows))"
proof (induction rows)
  case Nil show ?case by simp
next
  case (Cons row rows)
  have "fst row \<notin> fst ` set rows \<Longrightarrow> fst row \<notin> fst ` set (drop_duplicates_last rows)"
    by (simp add: drop_duplicates_last_keys)
  with Cons show ?case by simp
qed

lemma drop_duplicates_last_subseq: "subseq (drop_duplicates_last rows) rows"
  by (induction rows) auto

lemma drop_duplicates_last_mem_iff:
  "(d, p) \<in> set (drop_duplicates_last rows) \<longleftrightarrow>
     (\<exists>pre post. rows = pre @ (d, p) # post \<and> d \<notin> fst ` set post)"
proof (induction rows)
  case Nil show ?case by simp
next
  case (Cons row rows)
  show ?case
  proof
    assume m: "(d, p) \<in> set (drop_duplicates_last (row # rows))"
    show "\<exists>pre post. row # rows = pre @ (d, p) # post \<and> d \<notin> fst ` set post"
    proof (cases "(d, p) \<in> set (drop_duplicates_last rows)")
      case True
      with Cons obtain pre post where "rows = pre @ (d, p) # post" "d \<notin> fst ` set post" by blast
      then have "row # rows = (row # pre) @ (d, p) # post \<and> d \<notin> fst ` set post" by simp
      then show ?thesis by blast
    next
      case False
      with m have "row = (d, p)" "fst row \<notin> fst ` set rows" by (auto split: if_splits)
      then have "row # rows = [] @ (d, p) # rows \<and> d \<notin> fst ` set rows" by auto
      then show ?thesis by blast
    qed
  next
    assume "\<exists>pre post. row # rows = pre @ (d, p) # post \<and> d \<notin> fst ` set post"
    then obtain pre post where e: "row # rows = pre @ (d, p) # post" and n: "d \<notin> fst ` set post" by blast
    show "(d, p) \<in> set (drop_duplicates_last (row # rows))"
    proof (cases pre)
      case Nil
      with e n show ?thesis by auto
    next
      case (Cons a pre')
      with e have "rows = pre' @ (d, p) # post" by simp
      with n Cons.IH have "(d, p) \<in> set (drop_duplicates_last rows)" by blast
      then show ?thesis by simp
    qed
  qed
qed

lemma drop_duplicates_last_subset: "set (drop_duplicates_last rows) \<subseteq> set rows"
  by (induction rows) auto

lemma drop_duplicates_last_id: "distinct (map fst rows) \<Longrightarrow> drop_duplicates_last rows = rows"
  by (induction rows) auto

lemma drop_duplicates_last_idem: "drop_duplicates_last (drop_duplicates_last rows) = drop_duplicates_last rows"
  by (rule drop_duplicates_last_id) (rule drop_duplicates_last_distinct)

lemma drop_duplicates_last_sorted: "sorted (map fst rows) \<Longrightarrow> sorted_wrt (<) (map fst (drop_duplicates_last rows))"
proof (induction rows)
  case Nil show ?case by simp
next
  case (Cons row rows)
  then have IH: "sorted_wrt (<) (map fst (drop_duplicates_last rows))" by simp
  show ?case
  proof (cases "fst row \<in> fst ` set rows")
    case True with IH show ?thesis by simp
  next
    case False
    from Cons.prems have "\<forall>x \<in> set rows. fst row \<le> fst x" by simp
    with False have "\<forall>x \<in> set rows. fst row < fst x" by (metis image_eqI order_le_less)
    moreover have "set (drop_duplicates_last rows) \<subseteq> set rows"
      by (rule drop_duplicates_last_subset)
    ultimately show ?thesis using IH False by auto
  qed
qed

lemma price_data_rows:
  "price_data utcoffset raw = Inr rows \<Longrightarrow>
     length rows = length raw \<and>
     (\<forall>i < length raw. fromtimestamp_date utcoffset (fst (raw ! i)) = Inr (fst (rows ! i))
          \<and> snd (rows ! i) = snd (raw ! i))"
proof (induction raw arbitrary: rows)
  case Nil then show ?case by simp
next
  case (Cons s raw)
  obtain ts price where s: "s = (ts, price)" by (cases s)
  from Cons.prems s obtain d rows' where d: "fromtimestamp_date utcoffset ts = Inr d"
    and r: "price_data utcoffset raw = Inr rows'" and rows: "rows = (d, price) # rows'"
    by (auto split: sum.splits)
  from Cons.IH[OF r] have IH: "length rows' = length raw"
    "\<forall>i < length raw. fromtimestamp_date utcoffset (fst (raw ! i)) = Inr (fst (rows' ! i))
          \<and> snd (rows' ! i) = snd (raw ! i)" by auto
  show ?case
  proof (intro conjI allI impI)
    show "length rows = length (s # raw)" using IH rows by simp
  next
    fix i assume "i < length (s # raw)"
    then show "fromtimestamp_date utcoffset (fst ((s # raw) ! i)) = Inr (fst (rows ! i))"
      using IH d rows s by (cases i) auto
  next
    fix i assume "i < length (s # raw)"
    then show "snd (rows ! i) = snd ((s # raw) ! i)"
      using IH d rows s by (cases i) auto
  qed
qed


lemma price_data_total:
  "(\<forall>s \<in> set raw. fromtimestamp_date utcoffset (fst s) \<noteq> Inl DateOutOfRange) \<Longrightarrow>
     \<exists>rows. price_data utcoffset raw = Inr rows"
proof (induction raw)
  case Nil show ?case by simp
next
  case (Cons s raw)
  obtain ts price where s: "s = (ts, price)" by (cases s)
  from Cons.prems s have "fromtimestamp_date utcoffset ts \<noteq> Inl DateOutOfRange" by simp
  then obtain d where d: "fromtimestamp_date utcoffset ts = Inr d"
    by (cases "fromtimestamp_date utcoffset ts") (auto intro: error.exhaust)
  from Cons obtain rows where "price_data utcoffset raw = Inr rows" by auto
  with d s show ?case by simp
qed

lemma drop_duplicates_last_mem_index:
  "(d, p) \<in> set (drop_duplicates_last rows) \<longleftrightarrow>
     (\<exists>i < length rows. rows ! i = (d, p) \<and> (\<forall>j < length rows. i < j \<longrightarrow> fst (rows ! j) \<noteq> d))"
proof
  assume "(d, p) \<in> set (drop_duplicates_last rows)"
  then have "\<exists>pre post. rows = pre @ (d, p) # post \<and> d \<notin> fst ` set post"
    by (simp only: drop_duplicates_last_mem_iff)
  then obtain pre post where e: "rows = pre @ (d, p) # post" and n: "d \<notin> fst ` set post"
    by blast
  have "length pre < length rows" using e by simp
  moreover have "rows ! length pre = (d, p)" using e by simp
  moreover have "\<forall>j < length rows. length pre < j \<longrightarrow> fst (rows ! j) \<noteq> d"
  proof (intro allI impI)
    fix j assume j: "j < length rows" "length pre < j"
    then have "rows ! j = post ! (j - length pre - 1)" using e
      by (simp add: nth_append nth_Cons')
    moreover have "j - length pre - 1 < length post" using j e by simp
    ultimately have "rows ! j \<in> set post" by simp
    then have "fst (rows ! j) \<in> fst ` set post" by (rule imageI)
    with n show "fst (rows ! j) \<noteq> d" by metis
  qed
  ultimately show "\<exists>i < length rows. rows ! i = (d, p) \<and> (\<forall>j < length rows. i < j \<longrightarrow> fst (rows ! j) \<noteq> d)"
    by blast
next
  assume "\<exists>i < length rows. rows ! i = (d, p) \<and> (\<forall>j < length rows. i < j \<longrightarrow> fst (rows ! j) \<noteq> d)"
  then obtain i where i: "i < length rows" "rows ! i = (d, p)"
    and l: "\<forall>j < length rows. i < j \<longrightarrow> fst (rows ! j) \<noteq> d" by blast
  have "rows = take i rows @ (d, p) # drop (Suc i) rows"
    using i by (metis id_take_nth_drop)
  moreover have "d \<notin> fst ` set (drop (Suc i) rows)"
  proof
    assume "d \<in> fst ` set (drop (Suc i) rows)"
    then obtain x where "x \<in> set (drop (Suc i) rows)" "fst x = d" by auto
    then obtain k where "k < length (drop (Suc i) rows)" "drop (Suc i) rows ! k = x"
      by (auto simp: in_set_conv_nth)
    then have "Suc i \<le> Suc i + k \<and> Suc i + k < length rows \<and> rows ! (Suc i + k) = x"
      by auto
    then obtain j where "Suc i \<le> j" "j < length rows" "rows ! j = x" by blast
    with l \<open>fst x = d\<close> show False by auto
  qed
  ultimately have "\<exists>pre post. rows = pre @ (d, p) # post \<and> d \<notin> fst ` set post"
    by blast
  then show "(d, p) \<in> set (drop_duplicates_last rows)"
    by (simp only: drop_duplicates_last_mem_iff)
qed


lemma price_data_of_dates:
  "(\<forall>d \<in> fst ` set rows. fromtimestamp_date utcoffset (to_ts d) = Inr d) \<Longrightarrow>
     price_data utcoffset (map (\<lambda>(d, p). (to_ts d, p)) rows) = Inr rows"
  by (induction rows) auto

text \<open>
  C3. Normalization keeps, for every calendar date, exactly one row: the one of the last
  raw sample (by position in the input) that falls on this date. A pair \<open>(d, p)\<close> is in
  the series if and only if some sample at position \<open>i\<close> has date \<open>d\<close> and price \<open>p\<close> and
  no sample at a later position has date \<open>d\<close>; neither the timestamps nor the prices are
  compared. With every timestamp in the supported range, the normalization returns.
\<close>

theorem normalize_last_wins:
  assumes "\<forall>s \<in> set raw. fromtimestamp_date utcoffset (fst s) \<noteq> Inl DateOutOfRange"
  shows "\<exists>series. normalize_samples utcoffset raw = Inr series \<and>
           distinct (map fst series) \<and>
           (\<forall>d p. (d, p) \<in> set series \<longleftrightarrow>
              (\<exists>i < length raw.
                  fromtimestamp_date utcoffset (fst (raw ! i)) = Inr d \<and> snd (raw ! i) = p \<and>
                  (\<forall>j < length raw. i < j \<longrightarrow>
                      fromtimestamp_date utcoffset (fst (raw ! j)) \<noteq> Inr d)))"
proof -
  from price_data_total[OF assms] obtain rows where r: "price_data utcoffset raw = Inr rows"
    by blast
  note pr = price_data_rows[OF r]
  have n: "normalize_samples utcoffset raw = Inr (drop_duplicates_last rows)"
    using r by (simp add: normalize_samples_def)
  have "(d, p) \<in> set (drop_duplicates_last rows) \<longleftrightarrow>
          (\<exists>i < length raw.
              fromtimestamp_date utcoffset (fst (raw ! i)) = Inr d \<and> snd (raw ! i) = p \<and>
              (\<forall>j < length raw. i < j \<longrightarrow>
                  fromtimestamp_date utcoffset (fst (raw ! j)) \<noteq> Inr d))" for d p
  proof -
    have "(\<exists>i < length rows. rows ! i = (d, p) \<and> (\<forall>j < length rows. i < j \<longrightarrow> fst (rows ! j) \<noteq> d))
        \<longleftrightarrow> (\<exists>i < length raw.
              fromtimestamp_date utcoffset (fst (raw ! i)) = Inr d \<and> snd (raw ! i) = p \<and>
              (\<forall>j < length raw. i < j \<longrightarrow>
                  fromtimestamp_date utcoffset (fst (raw ! j)) \<noteq> Inr d))"
    proof -
      have len: "length rows = length raw" using pr by simp
      have nth: "fromtimestamp_date utcoffset (fst (raw ! i)) = Inr (fst (rows ! i))"
                "snd (rows ! i) = snd (raw ! i)" if "i < length raw" for i
        using pr that by simp_all
      have dt: "fromtimestamp_date utcoffset (fst (raw ! i)) = Inr d \<longleftrightarrow> fst (rows ! i) = d"
        if "i < length raw" for i d
        using nth(1)[OF that] by simp
      have pq: "rows ! i = (d, p) \<longleftrightarrow>
                  fromtimestamp_date utcoffset (fst (raw ! i)) = Inr d \<and> snd (raw ! i) = p"
        if "i < length raw" for i
        using dt[OF that] nth(2)[OF that] by (cases "rows ! i") auto
      show ?thesis
        unfolding len using pq dt by (metis (no_types, lifting))
    qed
    then show ?thesis by (simp only: drop_duplicates_last_mem_index)
  qed
  with n drop_duplicates_last_distinct show ?thesis by blast
qed


text \<open>
  The second sample has the earlier timestamp and the lower price, and falls on the same
  day as the first: it is the one that survives.
\<close>

theorem normalize_last_wins_witness:
  "fromtimestamp_date (\<lambda>ts. 0) 1733918400000 = Inr 20068 \<and>
   fromtimestamp_date (\<lambda>ts. 0) 1733875200000 = Inr 20068 \<and>
   normalize_samples (\<lambda>ts. 0) [(1733918400000, Fin 30), (1733875200000, Fin 20)]
     = Inr [(20068, Fin 20)] \<and>
   (\<exists>series. normalize_samples (\<lambda>ts. 0) [(1733918400000, Fin 30), (1733875200000, Fin 20)]
        = Inr series \<and>
      distinct (map fst series) \<and>
      (\<forall>d p. (d, p) \<in> set series \<longleftrightarrow>
         (\<exists>i < length [(1733918400000::int, Fin 30), (1733875200000, Fin 20)].
             fromtimestamp_date (\<lambda>ts. 0)
               (fst ([(1733918400000, Fin 30), (1733875200000, Fin 20)] ! i)) = Inr d \<and>
             snd ([(1733918400000::int, Fin 30), (1733875200000, Fin 20)] ! i) = p \<and>
             (\<forall>j < length [(1733918400000::int, Fin 30), (1733875200000, Fin 20)]. i < j \<longrightarrow>
                 fromtimestamp_date (\<lambda>ts. 0)
                   (fst ([(1733918400000, Fin 30), (1733875200000, Fin 20)] ! j)) \<noteq> Inr d))))"
proof -
  have h: "\<forall>s \<in> set [(1733918400000, Fin 30), (1733875200000, Fin 20)].
             fromtimestamp_date (\<lambda>ts. 0) (fst s) \<noteq> Inl DateOutOfRange"
    by (simp add: fromtimestamp_date_def MINDAY_def MAXDAY_def)
  have e: "normalize_samples (\<lambda>ts. 0) [(1733918400000, Fin 30), (1733875200000, Fin 20)]
             = Inr [(20068, Fin 20)]"
    by (simp add: normalize_samples_def fromtimestamp_date_def MINDAY_def MAXDAY_def)
  have d: "fromtimestamp_date (\<lambda>ts. 0) 1733918400000 = Inr 20068"
          "fromtimestamp_date (\<lambda>ts. 0) 1733875200000 = Inr 20068"
    by (simp_all add: fromtimestamp_date_def MINDAY_def MAXDAY_def)
  from d e normalize_last_wins [OF h] show ?thesis by blast
qed

text \<open>
  C4, as stated, fails: nothing in \<open>get_prices\<close> sorts the rows. Two samples that arrive
  with the later day first stay in that order, so the dates of the series are not
  ascending.
\<close>

theorem normalize_not_sorted_counterexample:
  "normalize_samples (\<lambda>ts. 0) [(1733918400000, Fin 2), (1733832000000, Fin 1)]
     = Inr [(20068, Fin 2), (20067, Fin 1)] \<and>
   \<not> sorted_wrt (<) (map fst [(20068 :: date, Fin 2), (20067, Fin 1)])"
  by (simp add: normalize_samples_def fromtimestamp_date_def MINDAY_def MAXDAY_def)

text \<open>
  C4, amended. The dates of a normalized series are unique for every raw input; they are
  in strictly ascending order whenever the dated samples \<open>price_data\<close> arrive in
  non-decreasing date order.
\<close>

theorem normalize_dates_unique:
  assumes "price_data utcoffset raw = Inr rows"
  shows "\<exists>series. normalize_samples utcoffset raw = Inr series \<and>
           distinct (map fst series) \<and>
           (sorted (map fst rows) \<longrightarrow> sorted_wrt (<) (map fst series))"
  using assms
  by (simp add: normalize_samples_def drop_duplicates_last_distinct drop_duplicates_last_sorted)

theorem normalize_dates_unique_witness:
  "price_data (\<lambda>ts. 0) [(1733832000000, Fin 1), (1733875200000, Fin 2), (1733918400000, Fin 3)]
     = Inr [(20067, Fin 1), (20068, Fin 2), (20068, Fin 3)] \<and>
   sorted (map fst [(20067 :: date, Fin 1), (20068, Fin 2), (20068, Fin 3)]) \<and>
   normalize_samples (\<lambda>ts. 0) [(1733832000000, Fin 1), (1733875200000, Fin 2), (1733918400000, Fin 3)]
     = Inr [(20067, Fin 1), (20068, Fin 3)] \<and>
   (\<exists>series. normalize_samples (\<lambda>ts. 0)
        [(1733832000000, Fin 1), (1733875200000, Fin 2), (1733918400000, Fin 3)] = Inr series \<and>
      distinct (map fst series) \<and> sorted_wrt (<) (map fst series))"
proof -
  have r: "price_data (\<lambda>ts. 0)
             [(1733832000000, Fin 1), (1733875200000, Fin 2), (1733918400000, Fin 3)]
           = Inr [(20067, Fin 1), (20068, Fin 2), (20068, Fin 3)]"
    by (simp add: fromtimestamp_date_def MINDAY_def MAXDAY_def)
  have s: "sorted (map fst [(20067 :: date, Fin 1), (20068, Fin 2), (20068, Fin 3)])"
    by simp
  have n: "normalize_samples (\<lambda>ts. 0)
             [(1733832000000, Fin 1), (1733875200000, Fin 2), (1733918400000, Fin 3)]
           = Inr [(20067, Fin 1), (20068, Fin 3)]"
    unfolding normalize_samples_def r by simp
  from normalize_dates_unique [OF r] s r n show ?thesis by blast
qed

text \<open>
  C10. Normalizing a normalized series gives the same series: the deduplication leaves
  it as it is, and so does the whole normalization when each date of the series is
  written back as a timestamp \<open>to_ts d\<close> that falls on this date.
\<close>

theorem normalize_idempotent:
  assumes "normalize_samples utcoffset raw = Inr series"
    and "\<forall>d \<in> fst ` set series. fromtimestamp_date utcoffset (to_ts d) = Inr d"
  shows "normalize_samples utcoffset (map (\<lambda>(d, p). (to_ts d, p)) series) = Inr series \<and>
         drop_duplicates_last series = series"
proof -
  from assms(1) obtain rows where "series = drop_duplicates_last rows"
    by (auto simp: normalize_samples_def split: sum.splits)
  then have "drop_duplicates_last series = series"
    by (simp add: drop_duplicates_last_idem)
  with price_data_of_dates [OF assms(2)] show ?thesis
    by (simp add: normalize_samples_def)
qed

theorem normalize_idempotent_witness:
  "normalize_samples (\<lambda>ts. 0)
     [(1733832000000, Fin 97077.22), (1733918400000, Fin 99807.41),
      (1733832000000, Fin 97779.31), (1733918400000, Fin 97343.92)]
     = Inr [(20067, Fin 97779.31), (20068, Fin 97343.92)] \<and>
   fromtimestamp_date (\<lambda>ts. 0) (20067 * 86400000) = Inr 20067 \<and>
   fromtimestamp_date (\<lambda>ts. 0) (20068 * 86400000) = Inr 20068 \<and>
   normalize_samples (\<lambda>ts. 0)
     (map (\<lambda>(d, p). (d * 86400000, p)) [(20067, Fin 97779.31), (20068, Fin 97343.92)])
     = Inr [(20067, Fin 97779.31), (20068, Fin 97343.92)] \<and>
   drop_duplicates_last [(20067 :: date, Fin 97779.31), (20068, Fin 97343.92)]
     = [(20067, Fin 97779.31), (20068, Fin 97343.92)]"
proof -
  have n: "normalize_samples (\<lambda>ts. 0)
     [(1733832000000, Fin 97077.22), (1733918400000, Fin 99807.41),
      (1733832000000, Fin 97779.31), (1733918400000, Fin 97343.92)]
     = Inr [(20067, Fin 97779.31), (20068, Fin 97343.92)]"
    by (simp add: normalize_samples_def fromtimestamp_date_def MINDAY_def MAXDAY_def)
  have d: "fromtimestamp_date (\<lambda>ts. 0) (20067 * 86400000) = Inr 20067"
          "fromtimestamp_date (\<lambda>ts. 0) (20068 * 86400000) = Inr 20068"
    by (simp_all add: fromtimestamp_date_def MINDAY_def MAXDAY_def)
  have h: "\<forall>d \<in> fst ` set [(20067 :: date, Fin 97779.31), (20068, Fin 97343.92)].
             fromtimestamp_date (\<lambda>ts. 0) (d * 86400000) = Inr d"
    using d by simp
  from normalize_idempotent [OF n h] n d show ?thesis by simp
qed


section \<open>Properties of the trend analysis\<close>

lemma analyze_trends_loop_map_of:
  "distinct (map fst prices_data) \<Longrightarrow>
     map_of (analyze_trends_loop prices_data trends) c =
       (case map_of prices_data c of
          None \<Rightarrow> map_of trends c
        | Some df \<Rightarrow> if df = [] then map_of trends c else Some (analyze_df df))"
proof (induction prices_data arbitrary: trends)
  case Nil show ?case by simp
next
  case (Cons entry rest)
  obtain coin_name df where e: "entry = (coin_name, df)" by (cases entry)
  from Cons.prems e have d: "distinct (map fst rest)" and n: "coin_name \<notin> fst ` set rest"
    by auto
  from n have m: "map_of rest coin_name = None" by (simp add: map_of_eq_None_iff)
  show ?case
  proof (cases "c = coin_name")
    case True
    with e m Cons.IH [OF d] show ?thesis by (simp add: AList.update_conv')
  next
    case False
    with e Cons.IH [OF d] show ?thesis
      by (simp add: AList.update_conv' split: option.splits)
  qed
qed

lemma analyze_trends_map_of:
  "distinct (map fst prices_data) \<Longrightarrow> (c, df) \<in> set prices_data \<Longrightarrow> df \<noteq> [] \<Longrightarrow>
     map_of (analyze_trends prices_data) c = Some (analyze_df df)"
  by (simp add: analyze_trends_def analyze_trends_loop_map_of)

lemma change_percentage_hd:
  "df \<noteq> [] \<Longrightarrow> change_percentage (analyze_df df) =
     fl_mul (fl_div (fl_sub (snd (last df)) (snd (hd df))) (snd (hd df))) (Fin 100)"
  by (simp add: analyze_df_def Let_def hd_conv_nth last_conv_nth)

lemma zero_division_not_finite:
  "\<not> is_finite (fl_mul (fl_div (fl_sub b (Fin 0)) (Fin 0)) (Fin 100))"
  by (cases b) auto

lemma fl_square_sym: "fl_mul (fl_sub a b) (fl_sub a b) = fl_mul (fl_sub b a) (fl_sub b a)"
  by (cases a; cases b) (simp_all add: algebra_simps)

lemma length_daily_changes: "length (daily_changes ps) = length ps - 1"
  by (simp add: daily_changes_def)

lemma std_sample_std:
  "std xs =
     (let values = filter (\<lambda>v. v \<noteq> NaN) xs
      in if length values \<le> 1 then NaN else sample_std values)"
proof -
  let ?vs = "filter (\<lambda>v. v \<noteq> NaN) xs"
  show ?thesis
  proof (cases "length ?vs \<le> 1")
    case True
    then show ?thesis by (simp add: std_def Let_def)
  next
    case False
    then have r: "real (length ?vs - 1) = real (length ?vs) - 1" by (simp add: of_nat_diff)
    from False show ?thesis
      unfolding std_def sample_std_def Let_def r
      by (simp add: fl_square_sym [of "fl_div (fl_sum ?vs) (Fin (real (length ?vs)))"])
  qed
qed

lemma daily_changes_no_nan:
  assumes "\<forall>p \<in> set ps. \<exists>x. p = Fin x \<and> x \<noteq> 0"
  shows "NaN \<notin> set (daily_changes ps)"
proof
  assume "NaN \<in> set (daily_changes ps)"
  then obtain i where i: "1 \<le> i" "i < length ps"
    and n: "fl_div (fl_sub (ps ! i) (ps ! (i - 1))) (ps ! (i - 1)) = NaN"
    by (auto simp: daily_changes_def)
  from i assms obtain a b where "ps ! i = Fin a" "ps ! (i - 1) = Fin b" "b \<noteq> 0"
    by (metis less_imp_diff_less nth_mem)
  with n show False by simp
qed

lemma daily_changes_4:
  "daily_changes [p0, p1, p2, p3] =
     [fl_div (fl_sub p1 p0) p0, fl_div (fl_sub p2 p1) p1, fl_div (fl_sub p3 p2) p2]"
  by (simp add: daily_changes_def upt_rec)

text \<open>
  C8, as stated, fails on a series that is not in date order, and the normalization
  returns such series: it never sorts. The analysis takes the rows at the first and the
  last position. On the series with day 20068 at price 2 followed by day 20067 at price 1
  it gives a change of -50, where the entries in date order (price 1 first, price 2 last)
  give +100.
\<close>

theorem change_percentage_date_order_counterexample:
  "normalize_samples (\<lambda>ts. 0) [(1733918400000, Fin 2), (1733832000000, Fin 1)]
     = Inr [(20068, Fin 2), (20067, Fin 1)] \<and>
   change_percentage (analyze_df [(20068, Fin 2), (20067, Fin 1)]) = Fin (- 50) \<and>
   by_date [(20068, Fin 2), (20067, Fin 1)] = [(20067, Fin 1), (20068, Fin 2)] \<and>
   change_by_date [(20068, Fin 2), (20067, Fin 1)] = Fin 100"
  by (simp add: normalize_samples_def fromtimestamp_date_def MINDAY_def MAXDAY_def
      analyze_df_def change_by_date_def by_date_def Let_def)

text \<open>
  C8, amended. For a series that is not empty, \<open>change_percentage\<close> is
  \<open>(last_price - first_price) / first_price * 100\<close> with the prices of the rows at the
  first and at the last position of the series; whenever the series is in date order,
  this is the change between its entries of the earliest and of the latest date.
\<close>

theorem change_percentage_by_position:
  assumes "df \<noteq> []"
  shows "change_percentage (analyze_df df) =
           fl_mul (fl_div (fl_sub (snd (last df)) (snd (hd df))) (snd (hd df))) (Fin 100) \<and>
         (sorted_wrt (<) (map fst df) \<longrightarrow>
            change_percentage (analyze_df df) = change_by_date df)"
proof -
  have c: "change_percentage (analyze_df df) =
           fl_mul (fl_div (fl_sub (snd (last df)) (snd (hd df))) (snd (hd df))) (Fin 100)"
    using assms by (rule change_percentage_hd)
  have "by_date df = df" if "sorted_wrt (<) (map fst df)"
    unfolding by_date_def
    using that by (intro sort_key_id_if_sorted strict_sorted_imp_sorted)
  with c show ?thesis by (simp add: change_by_date_def Let_def)
qed

theorem change_percentage_by_position_witness:
  "[(20067 :: date, Fin 50), (20068, Fin 80), (20069, Fin 60)] \<noteq> [] \<and>
   sorted_wrt (<) (map fst [(20067 :: date, Fin 50), (20068, Fin 80), (20069, Fin 60)]) \<and>
   change_percentage (analyze_df [(20067, Fin 50), (20068, Fin 80), (20069, Fin 60)])
     = Fin 20 \<and>
   change_by_date [(20067, Fin 50), (20068, Fin 80), (20069, Fin 60)] = Fin 20"
proof -
  have n: "[(20067 :: date, Fin 50), (20068, Fin 80), (20069, Fin 60)] \<noteq> []" by simp
  have s: "sorted_wrt (<) (map fst [(20067 :: date, Fin 50), (20068, Fin 80), (20069, Fin 60)])"
    by simp
  from change_percentage_by_position [OF n] s
  have e: "change_percentage (analyze_df [(20067, Fin 50), (20068, Fin 80), (20069, Fin 60)])
             = change_by_date [(20067, Fin 50), (20068, Fin 80), (20069, Fin 60)]"
    by blast
  from change_percentage_by_position [OF n]
  have v: "change_percentage (analyze_df [(20067, Fin 50), (20068, Fin 80), (20069, Fin 60)])
             = Fin 20"
    by simp
  from n s e v show ?thesis by (simp only: simp_thms)
qed

text \<open>
  C9. On the prices 97077.22, 99807.41, 97779.31, 97343.92 (whatever their dates), the
  change is computed from the first and the last price and lies within 0.005 of 0.27, the
  average is the mean of the four prices, 98001.965, and the volatility is the sample
  standard deviation of the three daily changes, within 0.0005 of 0.025.
\<close>

theorem analyze_example:
  "analyze_df [(d1, Fin 97077.22), (d2, Fin 99807.41), (d3, Fin 97779.31), (d4, Fin 97343.92)]
     = \<lparr> change_percentage = Fin ((97343.92 - 97077.22) / 97077.22 * 100),
         volatility = sample_std (daily_changes [Fin 97077.22, Fin 99807.41, Fin 97779.31, Fin 97343.92]),
         average_price = Fin ((97077.22 + 99807.41 + 97779.31 + 97343.92) / 4) \<rparr> \<and>
   \<bar>(97343.92 - 97077.22) / 97077.22 * 100 - 0.27 :: real\<bar> < 0.005 \<and>
   (97077.22 + 99807.41 + 97779.31 + 97343.92) / 4 = (98001.965 :: real) \<and>
   (\<exists>v. sample_std (daily_changes [Fin 97077.22, Fin 99807.41, Fin 97779.31, Fin 97343.92]) = Fin v
        \<and> \<bar>v - 0.025\<bar> < 0.0005)"
proof -
  let ?q = "1642426644936250886878804912632963128527 /
            2692622216121614232980423402403505691313132 :: real"
  have v: "sample_std (daily_changes [Fin 97077.22, Fin 99807.41, Fin 97779.31, Fin 97343.92])
             = Fin (sqrt ?q)"
    by (simp add: daily_changes_4 sample_std_def fl_sum_def Let_def)
  have a: "analyze_df [(d1, Fin 97077.22), (d2, Fin 99807.41), (d3, Fin 97779.31), (d4, Fin 97343.92)]
     = \<lparr> change_percentage = Fin ((97343.92 - 97077.22) / 97077.22 * 100),
         volatility = Fin (sqrt ?q),
         average_price = Fin ((97077.22 + 99807.41 + 97779.31 + 97343.92) / 4) \<rparr>"
    by (simp add: analyze_df_def daily_changes_4 mean_def fl_sum_def std_def Let_def)
  have lo: "0.0245 < sqrt ?q"
    by (rule real_less_rsqrt) (simp add: power2_eq_square)
  have hi: "sqrt ?q < 0.0255"
    by (rule real_less_lsqrt) (simp_all add: power2_eq_square)
  have "0.0245 < s \<Longrightarrow> s < 0.0255 \<Longrightarrow> \<bar>s - 0.025\<bar> < 0.0005" for s :: real
    unfolding abs_less_iff by simp
  from this [OF lo hi] have b: "\<bar>sqrt ?q - 0.025\<bar> < 0.0005" .
  have c: "\<bar>(97343.92 - 97077.22) / 97077.22 * 100 - 0.27 :: real\<bar> < 0.005" by simp
  have m: "(97077.22 + 99807.41 + 97779.31 + 97343.92) / 4 = (98001.965 :: real)" by simp
  from a v b c m show ?thesis by (simp only: simp_thms) blast
qed


text \<open>
  C2, as stated, fails on a series with two zero prices in a row. The daily change
  \<open>(0 - 0) / 0\<close> is NaN, and \<open>pandas.Series.std()\<close> leaves NaN entries out: on the prices
  1, 2, 0, 0 the daily changes are 1, -1 and NaN, and the volatility is the deviation of
  the two numbers 1 and -1 with divisor 1, the square root of 2. The sample standard
  deviation of the three daily changes, with divisor 2, is not a number.
\<close>

theorem volatility_skips_nan_counterexample:
  "daily_changes (map snd [(20067 :: date, Fin 1), (20068, Fin 2), (20069, Fin 0), (20070, Fin 0)])
     = [Fin 1, Fin (- 1), NaN] \<and>
   volatility (analyze_df [(20067, Fin 1), (20068, Fin 2), (20069, Fin 0), (20070, Fin 0)])
     = Fin (sqrt 2) \<and>
   sample_std [Fin 1, Fin (- 1), NaN] = NaN"
  by (simp add: analyze_df_def daily_changes_4 std_def sample_std_def fl_sum_def Let_def)

text \<open>
  C2, amended. With more than one daily change (three prices or more), the volatility is
  the Bessel-corrected sample standard deviation of the daily changes that are not NaN
  (NaN when fewer than two are left), and \<open>0.0\<close> otherwise, so for a series of one or two
  prices. When no daily change is NaN, it is the sample standard deviation of all daily
  changes, with divisor \<open>n - 1\<close>; finite prices that are not zero give no NaN
  (\<open>daily_changes_no_nan\<close>).
\<close>

theorem volatility_sample_std:
  assumes "df \<noteq> []"
  shows "volatility (analyze_df df) =
           (if 3 \<le> length df
            then (let values = filter (\<lambda>v. v \<noteq> NaN) (daily_changes (map snd df))
                  in if length values \<le> 1 then NaN else sample_std values)
            else Fin 0) \<and>
         (NaN \<notin> set (daily_changes (map snd df)) \<longrightarrow>
            volatility (analyze_df df) =
              (if 3 \<le> length df then sample_std (daily_changes (map snd df)) else Fin 0))"
proof -
  let ?dc = "daily_changes (map snd df)"
  have v: "volatility (analyze_df df) = (if 3 \<le> length df then std ?dc else Fin 0)"
    by (auto simp: analyze_df_def Let_def length_daily_changes)
  have n: "std ?dc = sample_std ?dc" if "NaN \<notin> set ?dc" "3 \<le> length df"
  proof -
    from that(1) have f: "filter (\<lambda>v. v \<noteq> NaN) ?dc = ?dc" by (auto simp: filter_id_conv)
    from that(2) have "\<not> length ?dc \<le> 1" by (simp add: length_daily_changes)
    then show ?thesis by (simp add: std_sample_std [of ?dc] f Let_def)
  qed
  from v n show ?thesis by (simp add: std_sample_std [of ?dc])
qed

theorem volatility_sample_std_witness:
  "[(20067 :: date, Fin 100), (20068, Fin 110), (20069, Fin 99)] \<noteq> [] \<and>
   daily_changes (map snd [(20067 :: date, Fin 100), (20068, Fin 110), (20069, Fin 99)])
     = [Fin (1 / 10), Fin (- 1 / 10)] \<and>
   NaN \<notin> set (daily_changes (map snd [(20067 :: date, Fin 100), (20068, Fin 110), (20069, Fin 99)])) \<and>
   volatility (analyze_df [(20067, Fin 100), (20068, Fin 110), (20069, Fin 99)])
     = sample_std [Fin (1 / 10), Fin (- 1 / 10)] \<and>
   sample_std [Fin (1 / 10), Fin (- 1 / 10)] = Fin (sqrt (1 / 50)) \<and>
   volatility (analyze_df [(20067, Fin 100), (20068, Fin 110)]) = Fin 0 \<and>
   volatility (analyze_df [(20067, Fin 100)]) = Fin 0"
proof -
  let ?df = "[(20067 :: date, Fin 100), (20068, Fin 110), (20069, Fin 99)]"
  have n: "?df \<noteq> []" by simp
  have d: "daily_changes (map snd ?df) = [Fin (1 / 10), Fin (- 1 / 10)]"
    by (simp add: daily_changes_def upt_rec)
  have s: "sample_std [Fin (1 / 10), Fin (- 1 / 10)] = Fin (sqrt (1 / 50))"
    by (simp add: sample_std_def fl_sum_def Let_def)
  have two: "[(20067 :: date, Fin 100), (20068, Fin 110)] \<noteq> []" by simp
  have one: "[(20067 :: date, Fin 100)] \<noteq> []" by simp
  from volatility_sample_std [OF n] volatility_sample_std [OF two]
    volatility_sample_std [OF one] d s
  show ?thesis by simp
qed


text \<open>
  C1, as stated, fails: a first price of zero makes nothing fail. The prices are numpy
  scalars, so \<open>(1 - 0) / 0\<close> is \<open>inf\<close>; coin \<open>a\<close> gets an ordinary entry in the trends,
  with an infinite change, and is even recommended. No failure is raised or recorded for
  it.
\<close>

theorem zero_first_price_counterexample:
  "suggest_investments (\<lambda>ts. 0)
     [(''a'', Json (Some [(1733832000000, Fin 0), (1733918400000, Fin 1)])),
      (''b'', Json (Some [(1733832000000, Fin 1), (1733918400000, Fin 2)]))]
   = Inr ([(''a'', \<lparr> change_percentage = PInf, volatility = Fin 0, average_price = Fin (1 / 2) \<rparr>),
           (''b'', \<lparr> change_percentage = Fin 100, volatility = Fin 0, average_price = Fin (3 / 2) \<rparr>)],
          [\<lparr> change_percentage = PInf, volatility = Fin 0, average_price = Fin (1 / 2),
              coin = ''a'' \<rparr>,
           \<lparr> change_percentage = Fin 100, volatility = Fin 0, average_price = Fin (3 / 2),
              coin = ''b'' \<rparr>])"
  by (simp add: suggest_investments_def get_prices_def normalize_samples_def
      fromtimestamp_date_def MINDAY_def MAXDAY_def analyze_trends_def analyze_df_def
      daily_changes_def mean_def fl_sum_def Let_def)

text \<open>
  C1, amended. For a coin whose series starts with the price zero, the analysis still
  stores the metrics of this coin, with a change percentage that is not finite (an
  infinity or NaN); and every coin of the batch with a series that is not empty gets its
  metrics, computed from its own series alone.
\<close>

theorem zero_first_price_no_failure:
  assumes "distinct (map fst prices_data)"
    and "(c, df) \<in> set prices_data"
    and "df \<noteq> []"
    and "snd (hd df) = Fin 0"
  shows "map_of (analyze_trends prices_data) c = Some (analyze_df df) \<and>
         \<not> is_finite (change_percentage (analyze_df df)) \<and>
         (\<forall>c' df'. (c', df') \<in> set prices_data \<and> df' \<noteq> [] \<longrightarrow>
            map_of (analyze_trends prices_data) c' = Some (analyze_df df'))"
  using assms
  by (simp add: analyze_trends_map_of change_percentage_hd zero_division_not_finite)

theorem zero_first_price_no_failure_witness:
  "distinct (map fst [(''a'', [(20067 :: date, Fin 0), (20068, Fin 1)]),
                      (''b'', [(20067, Fin 1), (20068, Fin 2)])]) \<and>
   snd (hd [(20067 :: date, Fin 0), (20068, Fin 1)]) = Fin 0 \<and>
   map_of (analyze_trends [(''a'', [(20067, Fin 0), (20068, Fin 1)]),
                           (''b'', [(20067, Fin 1), (20068, Fin 2)])]) ''a''
     = Some (analyze_df [(20067, Fin 0), (20068, Fin 1)]) \<and>
   change_percentage (analyze_df [(20067, Fin 0), (20068, Fin 1)]) = PInf \<and>
   map_of (analyze_trends [(''a'', [(20067, Fin 0), (20068, Fin 1)]),
                           (''b'', [(20067, Fin 1), (20068, Fin 2)])]) ''b''
     = Some (analyze_df [(20067, Fin 1), (20068, Fin 2)])"
proof -
  let ?a = "[(20067 :: date, Fin 0), (20068, Fin 1)]"
  let ?b = "[(20067 :: date, Fin 1), (20068, Fin 2)]"
  let ?pd = "[(''a'', ?a), (''b'', ?b)]"
  have d: "distinct (map fst ?pd)" by simp
  have m: "(''a'', ?a) \<in> set ?pd" by simp
  have mb: "(''b'', ?b) \<in> set ?pd" by simp
  have n: "?a \<noteq> []" by simp
  have nb: "?b \<noteq> []" by simp
  have z: "snd (hd ?a) = Fin 0" by simp
  have cp: "change_percentage (analyze_df ?a) = PInf"
    by (simp add: change_percentage_hd)
  note t = zero_first_price_no_failure [OF d m n z]
  from t have 1: "map_of (analyze_trends ?pd) ''a'' = Some (analyze_df ?a)" by (rule conjunct1)
  from t mb nb have 2: "map_of (analyze_trends ?pd) ''b'' = Some (analyze_df ?b)" by blast
  from d z 1 2 cp show ?thesis by (simp only: simp_thms)
qed


section \<open>Properties of the recommendations\<close>

lemma fl_le_not_gt: "fl_le a b \<Longrightarrow> \<not> fl_gt a b"
  by (cases a; cases b) simp_all

lemma fl_gt_zero_five: "fl_gt a (Fin 0) \<Longrightarrow> (\<not> fl_gt a (Fin 5)) = fl_le a (Fin 5)"
  by (cases a) auto

lemma recommendations_coins:
  "c \<in> coin ` set (recommendations trends) \<longleftrightarrow>
     (\<exists>t. (c, t) \<in> set trends \<and> fl_gt (change_percentage t) (Fin 0))"
proof (induction trends)
  case Nil show ?case by simp
next
  case (Cons entry rest)
  obtain n t where e: "entry = (n, t)" by (cases entry)
  show ?case
  proof (cases "fl_gt (change_percentage t) (Fin 0)")
    case True
    with e Cons show ?thesis by auto
  next
    case False
    with e Cons show ?thesis by auto
  qed
qed

lemma recommendations_positive_change:
  "r \<in> set (recommendations trends) \<Longrightarrow> fl_gt (change_percentage r) (Fin 0)"
  by (induction trends) (auto split: if_splits)

text \<open>
  C6. A coin of the trends dictionary is recommended if and only if its change percentage
  is greater than zero; a coin whose change percentage is at most zero, zero included, is
  never recommended.
\<close>

theorem recommendation_iff_positive:
  assumes "distinct (map fst trends)"
  shows "(c \<in> coin ` set (recommendations trends) \<longleftrightarrow>
            (\<exists>t. map_of trends c = Some t \<and> fl_gt (change_percentage t) (Fin 0))) \<and>
         (\<forall>t. map_of trends c = Some t \<and> fl_le (change_percentage t) (Fin 0) \<longrightarrow>
            c \<notin> coin ` set (recommendations trends))"
proof -
  have m: "(c, t) \<in> set trends \<longleftrightarrow> map_of trends c = Some t" for t
    using assms by simp
  have 1: "c \<in> coin ` set (recommendations trends) \<longleftrightarrow>
            (\<exists>t. map_of trends c = Some t \<and> fl_gt (change_percentage t) (Fin 0))"
    by (simp add: recommendations_coins m)
  have 2: "c \<notin> coin ` set (recommendations trends)"
    if "map_of trends c = Some t" "fl_le (change_percentage t) (Fin 0)" for t
    using that fl_le_not_gt [OF that(2)] by (auto simp: 1)
  from 1 2 show ?thesis by blast
qed

theorem recommendation_iff_positive_witness:
  "distinct (map fst
     [(''a'', \<lparr> change_percentage = Fin 2, volatility = Fin 0, average_price = Fin 1 \<rparr>),
      (''b'', \<lparr> change_percentage = Fin 0, volatility = Fin 0, average_price = Fin 1 \<rparr>),
      (''c'', \<lparr> change_percentage = Fin (- 3), volatility = Fin 0, average_price = Fin 1 \<rparr>)]) \<and>
   map coin (recommendations
     [(''a'', \<lparr> change_percentage = Fin 2, volatility = Fin 0, average_price = Fin 1 \<rparr>),
      (''b'', \<lparr> change_percentage = Fin 0, volatility = Fin 0, average_price = Fin 1 \<rparr>),
      (''c'', \<lparr> change_percentage = Fin (- 3), volatility = Fin 0, average_price = Fin 1 \<rparr>)])
     = [''a''] \<and>
   ''a'' \<in> coin ` set (recommendations
     [(''a'', \<lparr> change_percentage = Fin 2, volatility = Fin 0, average_price = Fin 1 \<rparr>),
      (''b'', \<lparr> change_percentage = Fin 0, volatility = Fin 0, average_price = Fin 1 \<rparr>),
      (''c'', \<lparr> change_percentage = Fin (- 3), volatility = Fin 0, average_price = Fin 1 \<rparr>)]) \<and>
   ''b'' \<notin> coin ` set (recommendations
     [(''a'', \<lparr> change_percentage = Fin 2, volatility = Fin 0, average_price = Fin 1 \<rparr>),
      (''b'', \<lparr> change_percentage = Fin 0, volatility = Fin 0, average_price = Fin 1 \<rparr>),
      (''c'', \<lparr> change_percentage = Fin (- 3), volatility = Fin 0, average_price = Fin 1 \<rparr>)])"
proof -
  let ?t = "[(''a'', \<lparr> change_percentage = Fin 2, volatility = Fin 0, average_price = Fin 1 \<rparr>),
      (''b'', \<lparr> change_percentage = Fin 0, volatility = Fin 0, average_price = Fin 1 \<rparr>),
      (''c'', \<lparr> change_percentage = Fin (- 3), volatility = Fin 0, average_price = Fin 1 \<rparr>)]"
  have d: "distinct (map fst ?t)" by simp
  have e: "map coin (recommendations ?t) = [''a'']" by simp
  have a: "''a'' \<in> coin ` set (recommendations ?t)"
    using recommendation_iff_positive [OF d, of "''a''"] by simp
  have b: "''b'' \<notin> coin ` set (recommendations ?t)"
    using recommendation_iff_positive [OF d, of "''b''"] by simp
  from d e a b show ?thesis by (simp only: simp_thms)
qed

text \<open>
  C5. For a recommended coin the suggestion is the high tier exactly when the change
  percentage is greater than 5, and the moderate tier exactly when it is greater than 0
  and at most 5. A change of exactly 5 gives the moderate tier, 5.0001 the high tier.
\<close>

theorem suggestion_tiers:
  assumes "r \<in> set (recommendations trends)"
  shows "(suggestion r = ''High potential for growth!'' \<longleftrightarrow>
            fl_gt (change_percentage r) (Fin 5)) \<and>
         (suggestion r = ''Moderate growth expected.'' \<longleftrightarrow>
            fl_gt (change_percentage r) (Fin 0) \<and> fl_le (change_percentage r) (Fin 5)) \<and>
         suggestion \<lparr> change_percentage = Fin 5, volatility = v, average_price = a,
                      coin = n \<rparr> = ''Moderate growth expected.'' \<and>
         suggestion \<lparr> change_percentage = Fin 5.0001, volatility = v, average_price = a,
                      coin = n \<rparr> = ''High potential for growth!''"
proof -
  from assms have p: "fl_gt (change_percentage r) (Fin 0)"
    by (rule recommendations_positive_change)
  have q: "fl_le (change_percentage r) (Fin 5) = (\<not> fl_gt (change_percentage r) (Fin 5))"
    using fl_gt_zero_five [OF p] by simp
  show ?thesis
    by (simp add: suggestion_def p q)
qed

theorem suggestion_tiers_witness:
  "recommendations
     [(''a'', \<lparr> change_percentage = Fin 5, volatility = Fin 0, average_price = Fin 1 \<rparr>),
      (''b'', \<lparr> change_percentage = Fin 5.0001, volatility = Fin 0, average_price = Fin 1 \<rparr>)]
   = [\<lparr> change_percentage = Fin 5, volatility = Fin 0, average_price = Fin 1, coin = ''a'' \<rparr>,
      \<lparr> change_percentage = Fin 5.0001, volatility = Fin 0, average_price = Fin 1,
        coin = ''b'' \<rparr>] \<and>
   suggestion \<lparr> change_percentage = Fin 5, volatility = Fin 0, average_price = Fin 1,
                coin = ''a'' \<rparr> = ''Moderate growth expected.'' \<and>
   suggestion \<lparr> change_percentage = Fin 5.0001, volatility = Fin 0, average_price = Fin 1,
                coin = ''b'' \<rparr> = ''High potential for growth!''"
proof -
  let ?t = "[(''a'', \<lparr> change_percentage = Fin 5, volatility = Fin 0, average_price = Fin 1 \<rparr>),
      (''b'', \<lparr> change_percentage = Fin 5.0001, volatility = Fin 0, average_price = Fin 1 \<rparr>)]"
  let ?ra = "\<lparr> change_percentage = Fin 5, volatility = Fin 0, average_price = Fin 1,
               coin = ''a'' \<rparr>"
  let ?rb = "\<lparr> change_percentage = Fin 5.0001, volatility = Fin 0, average_price = Fin 1,
               coin = ''b'' \<rparr>"
  have e: "recommendations ?t = [?ra, ?rb]" by simp
  then have ma: "?ra \<in> set (recommendations ?t)" and mb: "?rb \<in> set (recommendations ?t)"
    by simp_all
  from suggestion_tiers [OF ma] have a: "suggestion ?ra = ''Moderate growth expected.''"
    by simp
  from suggestion_tiers [OF mb] have b: "suggestion ?rb = ''High potential for growth!''"
    by simp
  from e a b show ?thesis by (simp only: simp_thms)
qed


section \<open>Properties of the whole run\<close>

lemma update_filter_same:
  "filter (\<lambda>p. fst p \<noteq> c) (AList.update c v al) = filter (\<lambda>p. fst p \<noteq> c) al"
  by (induction al) auto

lemma update_set: "set (AList.update k v al) \<subseteq> insert (k, v) (set al)"
  by (induction al) auto

lemma normalize_samples_Nil: "normalize_samples utcoffset [] = Inr []"
  by (simp add: normalize_samples_def)

lemma get_prices_loop_filter:
  assumes "\<forall>r. (c, r) \<in> set batch \<longrightarrow> no_data r"
  shows "get_prices_loop utcoffset (filter (\<lambda>e. fst e \<noteq> c) batch)
           (filter (\<lambda>p. fst p \<noteq> c) prices) =
         (case get_prices_loop utcoffset batch prices of
            Inl e \<Rightarrow> Inl e
          | Inr prices' \<Rightarrow> Inr (filter (\<lambda>p. fst p \<noteq> c) prices'))"
  using assms
proof (induction utcoffset batch prices rule: get_prices_loop.induct)
  case (1 utcoffset prices)
  show ?case by simp
next
  case (2 utcoffset coin_name rest prices)
  then show ?case by simp
next
  case (3 utcoffset coin_name rest prices)
  then show ?case by simp
next
  case (4 utcoffset coin_name raw rest prices)
  show ?case
  proof (cases "coin_name = c")
    case True
    with "4.prems" have "no_data (Json (Some raw))" by simp
    then have raw: "raw = []" by (simp add: no_data_def)
    have "get_prices_loop utcoffset (filter (\<lambda>e. fst e \<noteq> c) rest)
            (filter (\<lambda>p. fst p \<noteq> c) (AList.update coin_name [] prices)) =
          (case get_prices_loop utcoffset rest (AList.update coin_name [] prices) of
             Inl e \<Rightarrow> Inl e
           | Inr prices' \<Rightarrow> Inr (filter (\<lambda>p. fst p \<noteq> c) prices'))"
      using "4.IH" [of "[]"] "4.prems" raw by (simp add: normalize_samples_Nil)
    with True raw show ?thesis
      by (simp add: normalize_samples_Nil update_filter_same)
  next
    case False
    show ?thesis
    proof (cases "normalize_samples utcoffset raw")
      case (Inl e)
      with False show ?thesis by simp
    next
      case (Inr df)
      have "get_prices_loop utcoffset (filter (\<lambda>e. fst e \<noteq> c) rest)
              (filter (\<lambda>p. fst p \<noteq> c) (AList.update coin_name df prices)) =
            (case get_prices_loop utcoffset rest (AList.update coin_name df prices) of
               Inl e \<Rightarrow> Inl e
             | Inr prices' \<Rightarrow> Inr (filter (\<lambda>p. fst p \<noteq> c) prices'))"
        using "4.IH" [OF Inr] "4.prems" by simp
      with False Inr show ?thesis
        by (simp add: AList.update_filter [of c coin_name])
    qed
  qed
qed

lemma get_prices_loop_empty_entries:
  assumes "\<forall>r. (c, r) \<in> set batch \<longrightarrow> no_data r"
    and "\<forall>df. (c, df) \<in> set prices \<longrightarrow> df = []"
    and "get_prices_loop utcoffset batch prices = Inr prices'"
  shows "\<forall>df. (c, df) \<in> set prices' \<longrightarrow> df = []"
  using assms
proof (induction utcoffset batch prices rule: get_prices_loop.induct)
  case (1 utcoffset prices)
  then show ?case by simp
next
  case (2 utcoffset coin_name rest prices)
  then show ?case by simp
next
  case (3 utcoffset coin_name rest prices)
  then show ?case by simp
next
  case (4 utcoffset coin_name raw rest prices)
  from "4.prems"(3) obtain df where n: "normalize_samples utcoffset raw = Inr df"
    and g: "get_prices_loop utcoffset rest (AList.update coin_name df prices) = Inr prices'"
    by (auto split: sum.splits)
  have "\<forall>df'. (c, df') \<in> set (AList.update coin_name df prices) \<longrightarrow> df' = []"
  proof (intro allI impI)
    fix df' assume "(c, df') \<in> set (AList.update coin_name df prices)"
    then have "(c, df') = (coin_name, df) \<or> (c, df') \<in> set prices"
      using update_set [of coin_name df prices] by auto
    then show "df' = []"
    proof
      assume e: "(c, df') = (coin_name, df)"
      with "4.prems"(1) have "no_data (Json (Some raw))" by simp
      then have "raw = []" by (simp add: no_data_def)
      with n e show ?thesis by (simp add: normalize_samples_Nil)
    next
      assume "(c, df') \<in> set prices"
      with "4.prems"(2) show ?thesis by simp
    qed
  qed
  with "4.IH" [OF n _ _ g] "4.prems"(1) show ?case by simp
qed

lemma analyze_trends_loop_filter:
  "\<forall>df. (c, df) \<in> set prices_data \<longrightarrow> df = [] \<Longrightarrow>
     analyze_trends_loop (filter (\<lambda>p. fst p \<noteq> c) prices_data) trends =
     analyze_trends_loop prices_data trends"
proof (induction prices_data arbitrary: trends)
  case Nil show ?case by simp
next
  case (Cons entry rest)
  obtain n df where e: "entry = (n, df)" by (cases entry)
  from Cons.prems have r: "\<forall>df. (c, df) \<in> set rest \<longrightarrow> df = []" by simp
  show ?case
  proof (cases "n = c")
    case True
    with Cons.prems e have "df = []" by simp
    with True e Cons.IH [OF r] show ?thesis by simp
  next
    case False
    with e Cons.IH [OF r] show ?thesis by simp
  qed
qed

lemma analyze_trends_loop_keys:
  "fst ` set (analyze_trends_loop prices_data trends) \<subseteq>
     fst ` set trends \<union> {n. \<exists>df. (n, df) \<in> set prices_data \<and> df \<noteq> []}"
proof (induction prices_data arbitrary: trends)
  case Nil show ?case by simp
next
  case (Cons entry rest)
  obtain n df where e: "entry = (n, df)" by (cases entry)
  show ?case
  proof (cases "df = []")
    case True
    with e Cons.IH [of trends] show ?thesis by auto
  next
    case False
    have "fst ` set (AList.update n (analyze_df df) trends) = {n} \<union> fst ` set trends"
      by (rule AList.dom_update)
    with False e Cons.IH [of "AList.update n (analyze_df df) trends"] show ?thesis
      by auto
  qed
qed

lemma recommendations_keys: "coin ` set (recommendations trends) \<subseteq> fst ` set trends"
proof
  fix c assume "c \<in> coin ` set (recommendations trends)"
  then obtain t where "(c, t) \<in> set trends" by (auto simp only: recommendations_coins)
  then have "fst (c, t) \<in> fst ` set trends" by (rule imageI)
  then show "c \<in> fst ` set trends" by simp
qed

lemma get_prices_loop_total:
  assumes "\<forall>n raw s. (n, Json (Some raw)) \<in> set batch \<and> s \<in> set raw \<longrightarrow>
             fromtimestamp_date utcoffset (fst s) \<noteq> Inl DateOutOfRange"
  shows "\<exists>prices'. get_prices_loop utcoffset batch prices = Inr prices'"
  using assms
proof (induction utcoffset batch prices rule: get_prices_loop.induct)
  case (1 utcoffset prices)
  show ?case by simp
next
  case (2 utcoffset coin_name rest prices)
  then show ?case by simp
next
  case (3 utcoffset coin_name rest prices)
  then show ?case by simp
next
  case (4 utcoffset coin_name raw rest prices)
  have "\<forall>s \<in> set raw. fromtimestamp_date utcoffset (fst s) \<noteq> Inl DateOutOfRange"
  proof
    fix s assume "s \<in> set raw"
    with "4.prems" [rule_format, of coin_name raw s]
    show "fromtimestamp_date utcoffset (fst s) \<noteq> Inl DateOutOfRange" by simp
  qed
  from price_data_total [OF this] obtain df where n: "normalize_samples utcoffset raw = Inr df"
    by (auto simp: normalize_samples_def)
  have "\<forall>n raw s. (n, Json (Some raw)) \<in> set rest \<and> s \<in> set raw \<longrightarrow>
          fromtimestamp_date utcoffset (fst s) \<noteq> Inl DateOutOfRange"
    using "4.prems" by (meson list.set_intros(2))
  from "4.IH" [OF n this] n show ?case by simp
qed


text \<open>
  C7. A coin for which every response carries no data (the request failed, the payload
  has no \<open>prices\<close> field, or the field is empty) is skipped: the run gives exactly what it
  gives without this coin, the coin has no entry in the trends and no recommendation, and
  the run returns its result whenever the timestamps of the other coins are in the range
  that \<open>datetime.fromtimestamp\<close> supports.
\<close>

theorem no_data_skipped:
  assumes "\<forall>r. (c, r) \<in> set batch \<longrightarrow> no_data r"
  shows "suggest_investments utcoffset batch =
           suggest_investments utcoffset (filter (\<lambda>e. fst e \<noteq> c) batch) \<and>
         (\<forall>trends recs. suggest_investments utcoffset batch = Inr (trends, recs) \<longrightarrow>
            map_of trends c = None \<and> c \<notin> coin ` set recs) \<and>
         ((\<forall>n raw s. (n, Json (Some raw)) \<in> set batch \<and> s \<in> set raw \<longrightarrow>
              fromtimestamp_date utcoffset (fst s) \<noteq> Inl DateOutOfRange) \<longrightarrow>
          (\<exists>trends recs. suggest_investments utcoffset batch = Inr (trends, recs)))"
proof (intro conjI allI impI)
  note f = get_prices_loop_filter [OF assms, of utcoffset "[]"]
  show "suggest_investments utcoffset batch =
          suggest_investments utcoffset (filter (\<lambda>e. fst e \<noteq> c) batch)"
  proof (cases "get_prices_loop utcoffset batch []")
    case (Inl e)
    with f show ?thesis by (simp add: suggest_investments_def get_prices_def)
  next
    case (Inr prices')
    from get_prices_loop_empty_entries [OF assms _ Inr]
    have "\<forall>df. (c, df) \<in> set prices' \<longrightarrow> df = []" by simp
    from analyze_trends_loop_filter [OF this, of "[]"] f Inr show ?thesis
      by (simp add: suggest_investments_def get_prices_def analyze_trends_def)
  qed
next
  fix trends recs
  assume r: "suggest_investments utcoffset batch = Inr (trends, recs)"
  then obtain prices' where g: "get_prices_loop utcoffset batch [] = Inr prices'"
    and t: "trends = analyze_trends prices'" and recs: "recs = recommendations trends"
    by (auto simp: suggest_investments_def get_prices_def Let_def split: sum.splits)
  from get_prices_loop_empty_entries [OF assms _ g]
  have "\<forall>df. (c, df) \<in> set prices' \<longrightarrow> df = []" by simp
  with analyze_trends_loop_keys [of prices' "[]"] t have k: "c \<notin> fst ` set trends"
    by (auto simp: analyze_trends_def)
  then show "map_of trends c = None" by (simp add: map_of_eq_None_iff)
  from k recommendations_keys [of trends] recs show "c \<notin> coin ` set recs" by blast
next
  assume "\<forall>n raw s. (n, Json (Some raw)) \<in> set batch \<and> s \<in> set raw \<longrightarrow>
            fromtimestamp_date utcoffset (fst s) \<noteq> Inl DateOutOfRange"
  from get_prices_loop_total [OF this, of "[]"]
  show "\<exists>trends recs. suggest_investments utcoffset batch = Inr (trends, recs)"
    by (auto simp: suggest_investments_def get_prices_def Let_def)
qed

theorem no_data_skipped_witness:
  "no_data (Json (Some [])) \<and>
   suggest_investments (\<lambda>ts. 0)
     [(''a'', Json None), (''b'', Json (Some [])),
      (''d'', Json (Some [(1733832000000, Fin 1), (1733918400000, Fin 2)]))]
   = Inr ([(''d'', \<lparr> change_percentage = Fin 100, volatility = Fin 0,
                     average_price = Fin (3 / 2) \<rparr>)],
          [\<lparr> change_percentage = Fin 100, volatility = Fin 0, average_price = Fin (3 / 2),
              coin = ''d'' \<rparr>]) \<and>
   suggest_investments (\<lambda>ts. 0)
     [(''a'', Json None), (''b'', Json (Some [])),
      (''d'', Json (Some [(1733832000000, Fin 1), (1733918400000, Fin 2)]))]
   = suggest_investments (\<lambda>ts. 0)
       (filter (\<lambda>e. fst e \<noteq> ''b'')
          [(''a'', Json None), (''b'', Json (Some [])),
           (''d'', Json (Some [(1733832000000, Fin 1), (1733918400000, Fin 2)]))]) \<and>
   map_of [(''d'', \<lparr> change_percentage = Fin 100, volatility = Fin 0,
                     average_price = Fin (3 / 2) \<rparr>)] ''b'' = None"
proof -
  let ?batch = "[(''a'', Json None), (''b'', Json (Some [])),
      (''d'', Json (Some [(1733832000000, Fin 1), (1733918400000, Fin 2)]))]"
  have n: "no_data (Json (Some []))" by (simp add: no_data_def)
  have h: "\<forall>r. (''b'', r) \<in> set ?batch \<longrightarrow> no_data r"
    by (simp add: no_data_def)
  have e: "suggest_investments (\<lambda>ts. 0) ?batch
     = Inr ([(''d'', \<lparr> change_percentage = Fin 100, volatility = Fin 0,
                     average_price = Fin (3 / 2) \<rparr>)],
          [\<lparr> change_percentage = Fin 100, volatility = Fin 0, average_price = Fin (3 / 2),
              coin = ''d'' \<rparr>])"
    by (simp add: suggest_investments_def get_prices_def normalize_samples_def
        fromtimestamp_date_def MINDAY_def MAXDAY_def analyze_trends_def analyze_df_def
        daily_changes_def mean_def fl_sum_def Let_def)
  note t = no_data_skipped [OF h, of "\<lambda>ts. 0"]
  from t have 1: "suggest_investments (\<lambda>ts. 0) ?batch =
      suggest_investments (\<lambda>ts. 0) (filter (\<lambda>e. fst e \<noteq> ''b'') ?batch)"
    by (rule conjunct1)
  from t e have 2: "map_of [(''d'', \<lparr> change_percentage = Fin 100, volatility = Fin 0,
                     average_price = Fin (3 / 2) \<rparr>)] ''b'' = None"
    by blast
  from n e 1 2 show ?thesis by (simp only: simp_thms)
qed


end
